theory Spec2Isabelle
  imports Main "HOL-Library.Word" "HOL-Library.Sublist"
begin

unbundle bit_operations_syntax

section \<open>JavaScript values and strings\<close>

text \<open>
  The node and the models manager are TypeScript whose values are only loosely typed at
  run time (\<^verbatim>\<open>any\<close>, \<^verbatim>\<open>as string\<close> casts).  A value that the code tests for truthiness
  or compares with \<^verbatim>\<open>===\<close> is a \<open>jsval\<close>: \<open>JNum\<close> holds integral numbers (no NaN),
  \<open>JObject\<close> is any object or array, which is always truthy.

  A \<open>string\<close> is a JavaScript string whose code units all lie below 256, so that
  \<^verbatim>\<open>charCodeAt\<close> is \<open>of_char\<close>.  The line terminators U+2028 and U+2029 and the white space
  beyond U+00A0 lie outside this range.
\<close>

datatype jsval = JUndefined | JNull | JBool bool | JNum int | JStr string | JObject

fun truthy :: "jsval \<Rightarrow> bool" where
  "truthy JUndefined = False"
| "truthy JNull = False"
| "truthy (JBool b) = b"
| "truthy (JNum n) = (n \<noteq> 0)"
| "truthy (JStr s) = (s \<noteq> [])"
| "truthy JObject = True"

text \<open>\<^verbatim>\<open>a || b\<close>\<close>

definition js_or :: "jsval \<Rightarrow> jsval \<Rightarrow> jsval" where
  "js_or a b = (if truthy a then a else b)"

text \<open>Line terminators (excluded by \<^verbatim>\<open>.\<close> in a regular expression) and \<^verbatim>\<open>\s\<close>.\<close>

definition isLineTerminator :: "char \<Rightarrow> bool" where
  "isLineTerminator c = (c = CHR 0x0A \<or> c = CHR 0x0D)"

definition isSpace :: "char \<Rightarrow> bool" where
  "isSpace c = (c = CHR 0x09 \<or> c = CHR 0x0A \<or> c = CHR 0x0B \<or> c = CHR 0x0C \<or> c = CHR 0x0D
                \<or> c = CHR 0x20 \<or> c = CHR 0xA0)"

text \<open>\<^verbatim>\<open>s.trim()\<close>\<close>

definition trim :: "string \<Rightarrow> string" where
  "trim s = rev (dropWhile isSpace (rev (dropWhile isSpace s)))"

text \<open>\<^verbatim>\<open>s.includes(t)\<close> and \<^verbatim>\<open>s.startsWith(t)\<close>\<close>

fun js_includes :: "string \<Rightarrow> string \<Rightarrow> bool" where
  "js_includes [] t = (t = [])"
| "js_includes (c # cs) t = (prefix t (c # cs) \<or> js_includes cs t)"

definition startsWith :: "string \<Rightarrow> string \<Rightarrow> bool" where
  "startsWith s t = prefix t s"

text \<open>
  \<^verbatim>\<open>s.toLowerCase()\<close> on code units below 256: the ASCII capitals and the Latin-1 capitals
  U+00C0 to U+00DE (without the multiplication sign U+00D7) move up by 32.
\<close>

definition lowerChar :: "char \<Rightarrow> char" where
  "lowerChar c =
     (let n = (of_char c :: nat)
      in if (65 \<le> n \<and> n \<le> 90) \<or> (192 \<le> n \<and> n \<le> 222 \<and> n \<noteq> 215)
         then char_of (n + 32) else c)"

definition toLowerCase :: "string \<Rightarrow> string" where
  "toLowerCase s = map lowerChar s"

text \<open>
  Matching under the \<^verbatim>\<open>i\<close> flag of a regular expression without the \<^verbatim>\<open>u\<close> flag: a code
  unit of 128 or more never matches an ASCII letter, so an ASCII pattern matches exactly
  the ASCII letters of either case.
\<close>

definition asciiLower :: "char \<Rightarrow> char" where
  "asciiLower c =
     (let n = (of_char c :: nat) in if 65 \<le> n \<and> n \<le> 90 then char_of (n + 32) else c)"

text \<open>The pattern \<open>p\<close>, written in lower case, matches at the head of \<open>s\<close> ignoring case.\<close>

definition prefix_ci :: "string \<Rightarrow> string \<Rightarrow> bool" where
  "prefix_ci p s = prefix p (map asciiLower s)"

text \<open>
  \<^verbatim>\<open>s.replace(re, rep)\<close> for a global regular expression that never matches the empty
  string: \<open>m\<close> gives the length of the match of \<open>re\<close> that starts at the head of its
  argument, if there is one.  The counter is the number of characters of the current
  match that are still to be skipped.
\<close>

fun replaceAll :: "(string \<Rightarrow> nat option) \<Rightarrow> string \<Rightarrow> nat \<Rightarrow> string \<Rightarrow> string" where
  "replaceAll m rep k [] = []"
| "replaceAll m rep (Suc k) (c # cs) = replaceAll m rep k cs"
| "replaceAll m rep 0 (c # cs) =
     (case m (c # cs) of
        None \<Rightarrow> c # replaceAll m rep 0 cs
      | Some n \<Rightarrow> rep @ replaceAll m rep (n - 1) cs)"

section \<open>DynamicModelsManager\<close>

text \<open>Errors thrown by the code: \<^verbatim>\<open>new Error(msg)\<close>, a run-time \<^verbatim>\<open>TypeError\<close>, and the
  host's \<^verbatim>\<open>NodeOperationError\<close> with its message.\<close>

datatype js_error = Error string | TypeError | NodeOperationError string

text \<open>\<^verbatim>\<open>interface CopilotModel\<close>: the fields the capability checks read.  \<^verbatim>\<open>capabilities\<close> is
  optional and of type \<^verbatim>\<open>any\<close>; its \<^verbatim>\<open>supports\<close> and \<^verbatim>\<open>limits\<close> members are optional objects.\<close>

record supports =
  vision :: jsval
  tool_calls :: jsval

record limits =
  limits_vision :: jsval

record capabilities =
  cap_supports :: "supports option"
  cap_limits :: "limits option"

record CopilotModel =
  model_id :: string
  model_name :: string
  model_capabilities :: "capabilities option"

text \<open>\<^verbatim>\<open>interface ModelCache\<close>; times are milliseconds as returned by \<^verbatim>\<open>Date.now()\<close>.\<close>

record ModelCache =
  models :: "CopilotModel list"
  fetchedAt :: int
  expiresAt :: int
  tokenHash :: string

text \<open>
  The static state of the class: the \<^verbatim>\<open>cache\<close> map, and a counter of the calls of
  \<^verbatim>\<open>fetchModelsFromAPI\<close> (the outbound requests), which the code itself does not keep.
\<close>

record dmm_state =
  cache :: "string \<rightharpoonup> ModelCache"
  fetches :: nat

definition CACHE_DURATION_MS :: int where
  "CACHE_DURATION_MS = 60 * 60 * 1000"

definition MIN_REFRESH_INTERVAL_MS :: int where
  "MIN_REFRESH_INTERVAL_MS = 5 * 60 * 1000"

text \<open>
  \<^verbatim>\<open>hashToken\<close>.  The loop keeps \<^verbatim>\<open>hash\<close> a 32-bit integer (\<^verbatim>\<open>hash & hash\<close>); the
  intermediate \<^verbatim>\<open>(hash << 5) - hash + char\<close> is exact in the source and is reduced modulo
  \<open>2 ^ 32\<close> by the conversion, which is what the word operations compute.
\<close>

definition hashStep :: "32 word \<Rightarrow> char \<Rightarrow> 32 word" where
  "hashStep hash c = (let h = push_bit 5 hash - hash + of_char c in h AND h)"

definition digit36 :: "nat \<Rightarrow> char" where
  "digit36 d = (if d < 10 then char_of (48 + d) else char_of (87 + d))"

function toString36 :: "nat \<Rightarrow> string" where
  "toString36 n = (if n < 36 then [digit36 n] else toString36 (n div 36) @ [digit36 (n mod 36)])"
  by pat_completeness auto
termination
  by (relation "measure id") auto

declare toString36.simps [simp del]

text \<open>\<^verbatim>\<open>typeof v === 'string'\<close>, and the characters of \<open>v\<close> when it is a string.\<close>

fun typeofString :: "jsval \<Rightarrow> bool" where
  "typeofString (JStr s) = True"
| "typeofString _ = False"

fun strOf :: "jsval \<Rightarrow> string" where
  "strOf (JStr s) = s"
| "strOf _ = []"

definition hashToken :: "jsval \<Rightarrow> string" where
  "hashToken token =
     (if \<not> truthy token \<or> \<not> typeofString token \<or> length (strOf token) = 0
      then ''models_default''
      else ''models_'' @ toString36 (nat \<bar>sint (foldl hashStep 0 (strOf token))\<bar>))"

text \<open>
  \<^verbatim>\<open>fetchModelsFromAPI\<close>: the request and the provider's answer are outside the program.
  \<open>resp\<close> is what the call produces when it is made: the thrown error, or \<^verbatim>\<open>data.data\<close>.
\<close>

definition fetchModelsFromAPI ::
  "js_error + CopilotModel list \<Rightarrow> dmm_state \<Rightarrow> (js_error + CopilotModel list) \<times> dmm_state" where
  "fetchModelsFromAPI resp s = (resp, s\<lparr>fetches := fetches s + 1\<rparr>)"

text \<open>\<^verbatim>\<open>getAvailableModels(oauthToken)\<close> called at time \<open>now\<close>.\<close>

definition getAvailableModels ::
  "js_error + CopilotModel list \<Rightarrow> jsval \<Rightarrow> int \<Rightarrow> dmm_state
     \<Rightarrow> (js_error + CopilotModel list) \<times> dmm_state" where
  "getAvailableModels resp oauthToken now s =
     (let tokenHash = hashToken oauthToken;
          cached = cache s tokenHash
      in case cached of
           Some c \<Rightarrow>
             if expiresAt c > now then (Inr (models c), s)
             else if now - fetchedAt c < MIN_REFRESH_INTERVAL_MS then (Inr (models c), s)
             else (case fetchModelsFromAPI resp s of
                     (Inr ms, s') \<Rightarrow>
                       (Inr ms, s'\<lparr>cache := (cache s')(tokenHash \<mapsto>
                          \<lparr>models = ms, fetchedAt = now,
                           expiresAt = now + CACHE_DURATION_MS, tokenHash = tokenHash\<rparr>)\<rparr>)
                   | (Inl error, s') \<Rightarrow> (Inr (models c), s'))
         | None \<Rightarrow>
             (case fetchModelsFromAPI resp s of
                (Inr ms, s') \<Rightarrow>
                  (Inr ms, s'\<lparr>cache := (cache s')(tokenHash \<mapsto>
                     \<lparr>models = ms, fetchedAt = now,
                      expiresAt = now + CACHE_DURATION_MS, tokenHash = tokenHash\<rparr>)\<rparr>)
              | (Inl error, s') \<Rightarrow> (Inl error, s')))"

text \<open>\<^verbatim>\<open>clearCache\<close> and \<^verbatim>\<open>clearAllCache\<close>\<close>

definition clearCache :: "jsval \<Rightarrow> dmm_state \<Rightarrow> dmm_state" where
  "clearCache oauthToken s = s\<lparr>cache := (cache s)(hashToken oauthToken := None)\<rparr>"

definition clearAllCache :: "dmm_state \<Rightarrow> dmm_state" where
  "clearAllCache s = s\<lparr>cache := Map.empty\<rparr>"

text \<open>\<^verbatim>\<open>getModelFromCache\<close>: \<^verbatim>\<open>cached.models.find(m => m.id === modelId) || null\<close>\<close>

definition getModelFromCache :: "dmm_state \<Rightarrow> jsval \<Rightarrow> string \<Rightarrow> CopilotModel option" where
  "getModelFromCache s oauthToken modelId =
     (case cache s (hashToken oauthToken) of
        None \<Rightarrow> None
      | Some cached \<Rightarrow> find (\<lambda>m. model_id m = modelId) (models cached))"

text \<open>\<^verbatim>\<open>(model.capabilities as any)?.supports || {}\<close> followed by \<^verbatim>\<open>.vision\<close>, and the same
  for \<^verbatim>\<open>limits\<close>: a missing object reads as \<^verbatim>\<open>undefined\<close>.\<close>

definition supportsVisionField :: "CopilotModel \<Rightarrow> jsval" where
  "supportsVisionField m =
     (case model_capabilities m of
        None \<Rightarrow> JUndefined
      | Some caps \<Rightarrow> (case cap_supports caps of None \<Rightarrow> JUndefined | Some sp \<Rightarrow> vision sp))"

definition limitsVisionField :: "CopilotModel \<Rightarrow> jsval" where
  "limitsVisionField m =
     (case model_capabilities m of
        None \<Rightarrow> JUndefined
      | Some caps \<Rightarrow> (case cap_limits caps of None \<Rightarrow> JUndefined | Some l \<Rightarrow> limits_vision l))"

text \<open>\<^verbatim>\<open>modelSupportsVision\<close>: \<open>None\<close> is the source's \<^verbatim>\<open>null\<close> (unknown).\<close>

definition modelSupportsVision :: "dmm_state \<Rightarrow> jsval \<Rightarrow> string \<Rightarrow> bool option" where
  "modelSupportsVision s oauthToken modelId =
     (case getModelFromCache s oauthToken modelId of
        None \<Rightarrow> None
      | Some model \<Rightarrow>
          if supportsVisionField model = JBool True then Some True
          else if truthy (limitsVisionField model) then Some True
          else Some False)"

section \<open>GitHubCopilotOpenAI node: messages\<close>

text \<open>
  Two errors of the node have messages with characters beyond code unit 255 and are values
  of their own: the \<^verbatim>\<open>NodeOperationError\<close> of lines 177 to 195 (\<open>FileInContentArray\<close>) and
  the \<^verbatim>\<open>Error\<close> of lines 81 to 83 (\<open>ManualModelNameRequired\<close>).
\<close>

datatype node_error = Js js_error | FileInContentArray | ManualModelNameRequired

text \<open>
  An element of a \<^verbatim>\<open>content\<close> array: \<^verbatim>\<open>null\<close> or \<^verbatim>\<open>undefined\<close>, or a value with its \<^verbatim>\<open>type\<close>
  and \<^verbatim>\<open>image_url\<close> members (\<open>JUndefined\<close> when absent).
\<close>

datatype part = PartNullish | Part (part_type: jsval) (part_image_url: jsval)

text \<open>
  The \<^verbatim>\<open>content\<close> of a message: a string, an array of parts, another object (given with its
  rendering by \<^verbatim>\<open>JSON.stringify(content, null, 2)\<close>), \<^verbatim>\<open>null\<close> or \<^verbatim>\<open>undefined\<close>, or a number
  or boolean.
\<close>

datatype content = CString string | CArray "part list" | CObject string | CNullish | CPrimitive

text \<open>An element of \<^verbatim>\<open>messages\<close>: an object with its \<^verbatim>\<open>role\<close>, \<^verbatim>\<open>content\<close> and \<^verbatim>\<open>type\<close> members.\<close>

record message =
  msg_role :: jsval
  msg_content :: content
  msg_type :: jsval

text \<open>
  The value of the variable \<^verbatim>\<open>messages\<close>.  It is declared an array, but JSON mode assigns
  whatever was parsed: \<open>MString\<close> is a JavaScript string, \<open>MOther\<close> a number, a boolean or
  an object that has neither a \<^verbatim>\<open>messages\<close> array nor a \<^verbatim>\<open>length\<close> member and is not iterable.
\<close>

datatype messages = MArray "message list" | MString string | MOther

text \<open>
  The value of \<^verbatim>\<open>parsed\<close> in JSON mode (lines 104 to 127): an array, an object whose
  \<^verbatim>\<open>messages\<close> member is an array, a string, another value, or the failure of \<^verbatim>\<open>JSON.parse\<close>
  or of the member access on \<^verbatim>\<open>null\<close>, with the message of that error.
\<close>

datatype parsed_json =
    JsonArray "message list"
  | JsonBody "message list"
  | JsonString string
  | JsonOther
  | JsonFail string

record advanced_options =
  enableVisionFallback :: jsval
  visionFallbackModel :: jsval
  visionFallbackCustomModel :: jsval

text \<open>The parameters of the node for one item, as \<^verbatim>\<open>getNodeParameter\<close> returns them.
  \<open>messagesParam\<close> is \<^verbatim>\<open>messagesParam.message\<close> when that is an array.\<close>

record node_params =
  modelSource :: string
  customModel :: string
  model :: string
  messagesInputMode :: string
  messagesJson :: parsed_json
  messagesParam :: "message list option"
  advancedOptions :: advanced_options

definition bindE :: "'e + 'a \<Rightarrow> ('a \<Rightarrow> 'e + 'b) \<Rightarrow> 'e + 'b" where
  "bindE r f = (case r of Inl e \<Rightarrow> Inl e | Inr x \<Rightarrow> f x)"

text \<open>Lines 60 to 91: the model the caller requested.\<close>

definition selectModel :: "node_params \<Rightarrow> node_error + string" where
  "selectModel p =
     (if modelSource p = ''custom'' then
        (let m = customModel p
         in if m = [] \<or> trim m = []
            then Inl (Js (Error
              ''Custom model name is required when using 'Custom (Manual Entry)' mode''))
            else Inr m)
      else
        (let selectedModel = model p
         in if selectedModel = ''__manual__'' then
              (let m = customModel p
               in if m = [] \<or> trim m = []
                  then Inl ManualModelNameRequired
                  else Inr m)
            else Inr selectedModel))"

text \<open>Lines 142 to 154: a message of manual mode keeps \<^verbatim>\<open>type\<close> only when it is
  \<^verbatim>\<open>'text'\<close> or \<^verbatim>\<open>'image_url'\<close>.\<close>

definition manualMessage :: "message \<Rightarrow> message" where
  "manualMessage msg =
     \<lparr>msg_role = msg_role msg, msg_content = msg_content msg,
      msg_type = (if truthy (msg_type msg) \<and>
                     (msg_type msg = JStr ''text'' \<or> msg_type msg = JStr ''image_url'')
                  then msg_type msg else JUndefined)\<rparr>"

text \<open>Lines 96 to 158.\<close>

definition parseMessages :: "node_params \<Rightarrow> node_error + messages" where
  "parseMessages p =
     (if messagesInputMode p = ''json'' then
        (case messagesJson p of
           JsonArray ms \<Rightarrow> Inr (MArray ms)
         | JsonBody ms \<Rightarrow> Inr (MArray ms)
         | JsonString s \<Rightarrow> Inr (MString s)
         | JsonOther \<Rightarrow> Inr MOther
         | JsonFail msg \<Rightarrow> Inl (Js (Error (''Failed to parse messages JSON: '' @ msg))))
      else
        (case messagesParam p of
           None \<Rightarrow> Inr (MArray [])
         | Some ms \<Rightarrow> Inr (MArray (map manualMessage ms))))"

definition defaultMessage :: message where
  "defaultMessage =
     \<lparr>msg_role = JStr ''user'', msg_content = CString ''Hello! How can you help me?'',
      msg_type = JUndefined\<rparr>"

text \<open>Lines 160 to 166.  A string has a \<^verbatim>\<open>length\<close> but no \<^verbatim>\<open>push\<close>.\<close>

definition addDefaultMessage :: "messages \<Rightarrow> node_error + messages" where
  "addDefaultMessage msgs =
     (case msgs of
        MArray ms \<Rightarrow> if length ms = 0 then Inr (MArray (ms @ [defaultMessage])) else Inr (MArray ms)
      | MString s \<Rightarrow> if length s = 0 then Inl (Js TypeError) else Inr (MString s)
      | MOther \<Rightarrow> Inr MOther)"

text \<open>Lines 168 to 199.  \<^verbatim>\<open>contentItem.type\<close> throws on a \<^verbatim>\<open>null\<close> or \<^verbatim>\<open>undefined\<close> item.\<close>

fun validateParts :: "part list \<Rightarrow> node_error option" where
  "validateParts [] = None"
| "validateParts (PartNullish # ps) = Some (Js TypeError)"
| "validateParts (Part t u # ps) =
     (if t = JStr ''file'' then Some FileInContentArray else validateParts ps)"

fun validateMessageList :: "message list \<Rightarrow> node_error option" where
  "validateMessageList [] = None"
| "validateMessageList (msg # ms) =
     (case msg_content msg of
        CArray ps \<Rightarrow>
          (case validateParts ps of Some e \<Rightarrow> Some e | None \<Rightarrow> validateMessageList ms)
      | _ \<Rightarrow> validateMessageList ms)"

definition validateMessages :: "messages \<Rightarrow> node_error + messages" where
  "validateMessages msgs =
     (case msgs of
        MArray ms \<Rightarrow> (case validateMessageList ms of Some e \<Rightarrow> Inl e | None \<Rightarrow> Inr msgs)
      | _ \<Rightarrow> Inr msgs)"

text \<open>Lines 203 to 221.\<close>

definition normalizeMessage :: "message \<Rightarrow> message" where
  "normalizeMessage msg =
     (case msg_content msg of
        CObject json \<Rightarrow> msg\<lparr>msg_content := CString json\<rparr>
      | _ \<Rightarrow> msg)"

definition normalizeMessages :: "messages \<Rightarrow> messages" where
  "normalizeMessages msgs =
     (case msgs of MArray ms \<Rightarrow> MArray (map normalizeMessage ms) | _ \<Rightarrow> msgs)"

section \<open>GitHubCopilotOpenAI node: vision detection and fallback\<close>

text \<open>
  \<^verbatim>\<open>content.match(/\[.*image.*\]/i)\<close>: an opening bracket, then on the same line the letters
  \<^verbatim>\<open>image\<close> in either case, then later on the same line a closing bracket.
\<close>

fun imageThenBracket :: "string \<Rightarrow> bool" where
  "imageThenBracket [] = False"
| "imageThenBracket (c # cs) =
     ((prefix_ci ''image'' (c # cs) \<and> CHR '']'' \<in> set (drop (length ''image'') (c # cs)))
      \<or> imageThenBracket cs)"

fun matchBracketImage :: "string \<Rightarrow> bool" where
  "matchBracketImage [] = False"
| "matchBracketImage (c # cs) =
     ((c = CHR ''['' \<and> imageThenBracket (takeWhile (\<lambda>d. \<not> isLineTerminator d) cs))
      \<or> matchBracketImage cs)"

text \<open>Line 352.\<close>

fun partIsImage :: "part \<Rightarrow> bool" where
  "partIsImage PartNullish = False"
| "partIsImage (Part t u) =
     (t = JStr ''image_url'' \<or> t = JStr ''image'' \<or> truthy u \<or> t = JStr ''file'')"

text \<open>The body of the loop of lines 335 to 359 for one message.\<close>

definition messageHasVision :: "message \<Rightarrow> bool" where
  "messageHasVision msg =
     (if msg_type msg = JStr ''file'' \<or> msg_type msg = JStr ''image'' then True
      else case msg_content msg of
             CString c \<Rightarrow>
               js_includes c ''data:image/'' \<or> matchBracketImage c
               \<or> startsWith c ''copilot-file://''
           | CArray ps \<Rightarrow> list_ex partIsImage ps
           | _ \<Rightarrow> False)"

text \<open>Lines 333 to 359: the loop leaves at the first message with vision content.\<close>

fun hasVisionContent :: "message list \<Rightarrow> bool" where
  "hasVisionContent [] = False"
| "hasVisionContent (msg # ms) = (if messageHasVision msg then True else hasVisionContent ms)"

text \<open>The same loop on the value of \<^verbatim>\<open>messages\<close>: the characters of a string have neither
  \<^verbatim>\<open>content\<close> nor \<^verbatim>\<open>type\<close>; \<^verbatim>\<open>for ... of\<close> throws on a value that is not iterable.\<close>

definition detectVision :: "messages \<Rightarrow> node_error + bool" where
  "detectVision msgs =
     (case msgs of
        MArray ms \<Rightarrow> Inr (hasVisionContent ms)
      | MString s \<Rightarrow> Inr False
      | MOther \<Rightarrow> Inl (Js TypeError))"

text \<open>Lines 319 to 331.  \<^verbatim>\<open>modelMapping\<close> is an object literal, so that the lookup
  \<^verbatim>\<open>modelMapping[model]\<close> also finds the members it inherits from \<^verbatim>\<open>Object.prototype\<close>, which
  are functions or objects and truthy.\<close>

definition modelMapping :: "(string \<times> string) list" where
  "modelMapping =
     [(''gpt-4'', ''gpt-4o''),
      (''gpt-4o'', ''gpt-4o''),
      (''gpt-4o-mini'', ''gpt-4o-mini''),
      (''gpt-4-turbo'', ''gpt-4o''),
      (''claude-3-5-sonnet'', ''claude-3.5-sonnet''),
      (''claude-3.5-sonnet-20241022'', ''claude-3.5-sonnet''),
      (''o1'', ''o1''),
      (''o1-preview'', ''o1-preview''),
      (''o1-mini'', ''o1-mini'')]"

definition objectPrototypeMembers :: "string list" where
  "objectPrototypeMembers =
     [''constructor'', ''__defineGetter__'', ''__defineSetter__'', ''hasOwnProperty'',
      ''__lookupGetter__'', ''__lookupSetter__'', ''isPrototypeOf'', ''propertyIsEnumerable'',
      ''toString'', ''valueOf'', ''__proto__'', ''toLocaleString'']"

text \<open>The value of \<^verbatim>\<open>copilotModel\<close>: a model id, or the inherited member of that name.\<close>

datatype model_ref = ModelId string | InheritedMember string

definition mapModel :: "string \<Rightarrow> model_ref" where
  "mapModel m =
     (case map_of modelMapping m of
        Some copilot \<Rightarrow> ModelId copilot
      | None \<Rightarrow> if m \<in> set objectPrototypeMembers then InheritedMember m else ModelId m)"

text \<open>The text of \<^verbatim>\<open>${copilotModel}\<close> in a template string (for an inherited member, as V8
  prints it).\<close>

definition modelText :: "model_ref \<Rightarrow> string" where
  "modelText cm =
     (case cm of
        ModelId m \<Rightarrow> m
      | InheritedMember k \<Rightarrow>
          if k = ''__proto__'' then ''[object Object]''
          else if k = ''constructor'' then ''function Object() { [native code] }''
          else ''function '' @ k @ ''() { [native code] }'')"

definition visionFallbackMissingMessage :: string where
  "visionFallbackMissingMessage =
     ''Vision fallback enabled but no fallback model was selected or provided. Please select a vision-capable model in Advanced Options.''"

definition visionUnsupportedMessage :: "model_ref \<Rightarrow> string" where
  "visionUnsupportedMessage cm =
     ''Model '' @ modelText cm @ '' does not support vision/image processing. Enable ''
     @ [CHR 0x22] @ ''Vision Fallback'' @ [CHR 0x22]
     @ '' in Advanced Options and select a vision-capable model, or choose a model with vision capabilities.''"

text \<open>
  Lines 367 to 377.  No descriptor id is equal to a value that is not a string.
  \<open>staticVision cm\<close> is the value of
  \<^verbatim>\<open>!!(modelInfo?.capabilities?.vision || modelInfo?.capabilities?.multimodal)\<close> for the entry
  of \<open>cm\<close> in the static model list of \<^verbatim>\<open>GitHubCopilotModelsManager\<close>, which is a parameter.
\<close>

definition supportsVision ::
  "dmm_state \<Rightarrow> jsval \<Rightarrow> (model_ref \<Rightarrow> bool) \<Rightarrow> model_ref \<Rightarrow> bool" where
  "supportsVision s oauthToken staticVision copilotModel =
     (case (case copilotModel of
              ModelId m \<Rightarrow> modelSupportsVision s oauthToken m
            | InheritedMember k \<Rightarrow> None) of
        None \<Rightarrow> staticVision copilotModel
      | Some b \<Rightarrow> b)"

text \<open>Lines 382 to 385: the fallback model, entered by hand when the list's choice is
  \<^verbatim>\<open>'__manual__'\<close>.\<close>

definition fallbackModel :: "advanced_options \<Rightarrow> jsval" where
  "fallbackModel opts =
     (let fallbackModelRaw = visionFallbackModel opts
      in if fallbackModelRaw = JStr ''__manual__''
         then visionFallbackCustomModel opts else fallbackModelRaw)"

text \<open>Lines 361 to 405.  A fallback model that is truthy and not a string has no
  \<^verbatim>\<open>trim\<close>.  \<open>credentials\<close> is the outcome of \<^verbatim>\<open>getCredentials\<close>, with the
  \<^verbatim>\<open>oauthToken\<close> member when it succeeds.\<close>

definition visionFallback ::
  "dmm_state \<Rightarrow> node_error + jsval \<Rightarrow> (model_ref \<Rightarrow> bool) \<Rightarrow> advanced_options
     \<Rightarrow> bool \<Rightarrow> model_ref \<Rightarrow> node_error + model_ref" where
  "visionFallback s credentials staticVision opts hasVision copilotModel =
     (if hasVision then
        bindE credentials (\<lambda>oauthToken.
          if \<not> supportsVision s oauthToken staticVision copilotModel then
            (if truthy (enableVisionFallback opts) then
               (if \<not> truthy (fallbackModel opts)
                then Inl (Js (NodeOperationError visionFallbackMissingMessage))
                else (case fallbackModel opts of
                        JStr f \<Rightarrow>
                          if trim f = []
                          then Inl (Js (NodeOperationError visionFallbackMissingMessage))
                          else Inr (ModelId f)
                      | _ \<Rightarrow> Inl (Js TypeError)))
             else Inl (Js (NodeOperationError (visionUnsupportedMessage copilotModel))))
          else Inr copilotModel)
      else Inr copilotModel)"

text \<open>Lines 319 to 405 for an array of messages: the model id that is sent upstream.\<close>

definition resolveModel ::
  "dmm_state \<Rightarrow> node_error + jsval \<Rightarrow> (model_ref \<Rightarrow> bool) \<Rightarrow> advanced_options
     \<Rightarrow> message list \<Rightarrow> string \<Rightarrow> node_error + model_ref" where
  "resolveModel s credentials staticVision opts msgs requested =
     visionFallback s credentials staticVision opts (hasVisionContent msgs) (mapModel requested)"

text \<open>The members of \<^verbatim>\<open>requestBody\<close> that the model and the messages decide, and the vision
  flag passed to \<^verbatim>\<open>makeApiRequest\<close>.\<close>

record request =
  req_model :: model_ref
  req_messages :: messages
  req_vision :: bool

text \<open>
  Lines 60 to 501 up to the call of \<^verbatim>\<open>makeApiRequest\<close>.  The parsing of the tools, of the
  response format and of the stop sequence catches its own errors, and none of them changes
  \<^verbatim>\<open>messages\<close> or \<^verbatim>\<open>copilotModel\<close>.
\<close>

definition buildRequest ::
  "dmm_state \<Rightarrow> node_error + jsval \<Rightarrow> (model_ref \<Rightarrow> bool) \<Rightarrow> node_params
     \<Rightarrow> node_error + request" where
  "buildRequest s credentials staticVision p =
     bindE (selectModel p) (\<lambda>requested.
     bindE (parseMessages p) (\<lambda>parsed.
     bindE (addDefaultMessage parsed) (\<lambda>withDefault.
     bindE (validateMessages withDefault) (\<lambda>validated.
       let msgs = normalizeMessages validated
       in bindE (detectVision msgs) (\<lambda>hasVision.
          bindE (visionFallback s credentials staticVision (advancedOptions p) hasVision
                   (mapModel requested)) (\<lambda>copilotModel.
            Inr \<lparr>req_model = copilotModel, req_messages = msgs, req_vision = hasVision\<rparr>))))))"

section \<open>GitHubCopilotOpenAI node: the error of an item\<close>

text \<open>\<^verbatim>\<open>\d\<close>\<close>

definition isDigit :: "char \<Rightarrow> bool" where
  "isDigit c = (c \<in> set ''0123456789'')"

text \<open>\<^verbatim>\<open>/\[Token used: [^\]]+\]/\<close> at the head of \<open>s\<close>: the length of the match.\<close>

definition tokenMatch :: "string \<Rightarrow> nat option" where
  "tokenMatch s =
     (if prefix ''[Token used: '' s then
        (let rest = drop (length ''[Token used: '') s;
             body = takeWhile (\<lambda>c. c \<noteq> CHR '']'') rest
         in if body \<noteq> [] \<and> length body < length rest
            then Some (length ''[Token used: '' + length body + 1) else None)
      else None)"

text \<open>\<^verbatim>\<open>/\[Attempt: \d+\/\d+\]/\<close> at the head of \<open>s\<close>.\<close>

definition attemptMatch :: "string \<Rightarrow> nat option" where
  "attemptMatch s =
     (if prefix ''[Attempt: '' s then
        (let r1 = drop (length ''[Attempt: '') s;
             d1 = takeWhile isDigit r1;
             r2 = drop (length d1) r1;
             d2 = takeWhile isDigit (drop 1 r2);
             r3 = drop (length d2) (drop 1 r2)
         in if d1 \<noteq> [] \<and> prefix ''/'' r2 \<and> d2 \<noteq> [] \<and> prefix '']'' r3
            then Some (length ''[Attempt: '' + length d1 + 1 + length d2 + 1) else None)
      else None)"

text \<open>\<^verbatim>\<open>/\s+/\<close> at the head of \<open>s\<close>.\<close>

definition spaceMatch :: "string \<Rightarrow> nat option" where
  "spaceMatch s =
     (let run = takeWhile isSpace s in if run \<noteq> [] then Some (length run) else None)"

text \<open>Lines 616 to 629: \<^verbatim>\<open>cleanMessage\<close> from \<^verbatim>\<open>errorMessage\<close>.\<close>

definition cleanErrorMessage :: "string \<Rightarrow> string" where
  "cleanErrorMessage errorMessage =
     (let m1 = trim (replaceAll tokenMatch [] 0 errorMessage);
          m2 = trim (replaceAll attemptMatch [] 0 m1);
          m3 = trim (if prefix_ci ''github copilot api error:'' m2
                     then dropWhile isSpace (drop (length ''github copilot api error:'') m2)
                     else m2)
      in trim (replaceAll spaceMatch '' '' 0 m3))"

text \<open>
  The caught error of an item: the error itself, \<^verbatim>\<open>errorMessage\<close> (line 610), and the value
  of \<^verbatim>\<open>apiError && apiError.error\<close> after lines 633 to 652 when it is truthy, with its
  \<^verbatim>\<open>message\<close>, \<^verbatim>\<open>type\<close>, \<^verbatim>\<open>code\<close> and \<^verbatim>\<open>param\<close> members.  The search of the serialised
  error and its parsing in those lines are inside a \<^verbatim>\<open>try\<close> and their result is given.
  \<open>stringifyThrows\<close> says whether \<^verbatim>\<open>JSON.stringify(error)\<close> at line 611, which is outside that
  \<^verbatim>\<open>try\<close>, throws its \<^verbatim>\<open>TypeError\<close> (an error object with a circular reference or a
  \<^verbatim>\<open>BigInt\<close> member).
\<close>

record api_error_body =
  err_message :: jsval
  err_type :: jsval
  err_code :: jsval
  err_param :: jsval

record caught =
  caught_error :: node_error
  errorMessage :: string
  stringifyThrows :: bool
  apiErrorBody :: "api_error_body option"

text \<open>The \<^verbatim>\<open>error\<close> object of the item pushed at lines 729 to 740.\<close>

record error_item =
  item_message :: jsval
  item_type :: jsval
  item_param :: jsval
  item_code :: jsval

datatype item_outcome = Thrown node_error | Pushed error_item

text \<open>Lines 654 to 659.\<close>

definition is400Error :: "string \<Rightarrow> api_error_body option \<Rightarrow> bool" where
  "is400Error cleanMessage body =
     (let lowerMessage = toLowerCase cleanMessage
      in js_includes lowerMessage ''400'' \<or> js_includes lowerMessage ''bad request''
         \<or> (case body of
               None \<Rightarrow> False
             | Some b \<Rightarrow> err_code b = JStr ''invalid_request_body''))"

text \<open>Lines 670 to 720.\<close>

definition classifyError :: "string \<Rightarrow> api_error_body option \<Rightarrow> error_item" where
  "classifyError cleanMessage body =
     (let lowerMessage = toLowerCase cleanMessage
      in case body of
           Some b \<Rightarrow>
             \<lparr>item_message = js_or (err_message b) (JStr cleanMessage),
              item_type = js_or (err_type b) (JStr ''invalid_request_error''),
              item_param = js_or (err_param b) JNull,
              item_code = js_or (err_code b) JNull\<rparr>
         | None \<Rightarrow>
             if js_includes lowerMessage ''403'' \<or> js_includes lowerMessage ''forbidden'' then
               \<lparr>item_message =
                  (if js_includes lowerMessage ''access'' \<and> js_includes lowerMessage ''forbidden''
                   then JStr ''You exceeded your current quota, please check your plan and billing details.''
                   else JStr cleanMessage),
                item_type = JStr ''invalid_request_error'',
                item_param = JNull,
                item_code = JStr ''insufficient_quota''\<rparr>
             else if js_includes lowerMessage ''max'' \<and> js_includes lowerMessage ''token'' then
               \<lparr>item_message = JStr ''This model's maximum context length is exceeded. Please reduce the length of the messages or completion.'',
                item_type = JStr ''invalid_request_error'',
                item_param = JStr ''max_tokens'',
                item_code = JStr ''context_length_exceeded''\<rparr>
             else if js_includes lowerMessage ''401'' \<or> js_includes lowerMessage ''unauthorized'' then
               \<lparr>item_message = JStr ''Incorrect API key provided. You can find your API key at https://platform.openai.com/account/api-keys.'',
                item_type = JStr ''invalid_request_error'',
                item_param = JNull,
                item_code = JStr ''invalid_api_key''\<rparr>
             else if js_includes lowerMessage ''429'' \<or> js_includes lowerMessage ''rate limit'' then
               \<lparr>item_message = JStr ''Rate limit reached. Please wait before making more requests.'',
                item_type = JStr ''rate_limit_error'',
                item_param = JNull,
                item_code = JStr ''rate_limit_exceeded''\<rparr>
             else if js_includes lowerMessage ''timeout'' then
               \<lparr>item_message = JStr ''Request timeout. Please try again.'',
                item_type = JStr ''api_error'',
                item_param = JNull,
                item_code = JStr ''timeout''\<rparr>
             else
               \<lparr>item_message = JStr cleanMessage,
                item_type = JStr ''api_error'',
                item_param = JNull,
                item_code = JStr ''internal_error''\<rparr>)"

text \<open>Lines 608 to 744: the \<^verbatim>\<open>catch\<close> block of an item.  What it throws leaves
  \<^verbatim>\<open>execute\<close>: the \<^verbatim>\<open>TypeError\<close> of \<^verbatim>\<open>JSON.stringify\<close>, the \<^verbatim>\<open>NodeOperationError\<close> of a bad
  request, or the error itself without continue-on-fail.\<close>

definition handleItemError :: "bool \<Rightarrow> caught \<Rightarrow> item_outcome" where
  "handleItemError continueOnFail c =
     (if continueOnFail then
        (if stringifyThrows c then Thrown (Js TypeError)
         else
           (let cleanMessage = cleanErrorMessage (errorMessage c)
            in if is400Error cleanMessage (apiErrorBody c)
               then Thrown (Js (NodeOperationError (''Bad Request (400): '' @ cleanMessage)))
               else Pushed (classifyError cleanMessage (apiErrorBody c))))
      else Thrown (caught_error c))"

section \<open>Example values\<close>

text \<open>Model descriptors, a failed fetch, states of the cache, messages and parameters
  for the concrete runs below.  \<open>noStaticVision\<close> is a static model list in which no model
  has vision.\<close>

definition visionModel :: CopilotModel where
  "visionModel =
     \<lparr>model_id = ''gpt-4o'', model_name = ''GPT-4o'',
      model_capabilities =
        Some \<lparr>cap_supports = Some \<lparr>vision = JBool True, tool_calls = JBool True\<rparr>,
              cap_limits = None\<rparr>\<rparr>"

definition textModel :: CopilotModel where
  "textModel =
     \<lparr>model_id = ''o1-mini'', model_name = ''o1 mini'',
      model_capabilities =
        Some \<lparr>cap_supports = Some \<lparr>vision = JUndefined, tool_calls = JBool False\<rparr>,
              cap_limits = None\<rparr>\<rparr>"

definition fetchFailure :: js_error where
  "fetchFailure = Error ''Failed to fetch models: 503 Service Unavailable''"

definition staleState :: "jsval \<Rightarrow> dmm_state" where
  "staleState tok =
     \<lparr>cache = [hashToken tok \<mapsto>
        \<lparr>models = [visionModel, textModel], fetchedAt = 0, expiresAt = 3600000,
         tokenHash = hashToken tok\<rparr>],
      fetches = 1\<rparr>"

definition emptyState :: dmm_state where
  "emptyState = \<lparr>cache = Map.empty, fetches = 0\<rparr>"

definition textMessage :: "string \<Rightarrow> message" where
  "textMessage c = \<lparr>msg_role = JStr ''user'', msg_content = CString c, msg_type = JUndefined\<rparr>"

definition noFallback :: advanced_options where
  "noFallback = \<lparr>enableVisionFallback = JUndefined, visionFallbackModel = JUndefined,
                  visionFallbackCustomModel = JUndefined\<rparr>"

definition noStaticVision :: "model_ref \<Rightarrow> bool" where
  "noStaticVision cm = False"

definition imageMessage :: message where
  "imageMessage = textMessage (''data:image/png;base64,'' @ replicate 60 CHR ''A'')"

definition serialisedError :: "string \<Rightarrow> caught" where
  "serialisedError msg =
     \<lparr>caught_error = Js (Error msg), errorMessage = msg, stringifyThrows = False,
      apiErrorBody = None\<rparr>"

definition manualParams :: "string \<Rightarrow> message list option \<Rightarrow> node_params" where
  "manualParams m ms =
     \<lparr>modelSource = ''fromList'', customModel = '''', model = m,
      messagesInputMode = ''manual'', messagesJson = JsonArray [], messagesParam = ms,
      advancedOptions = \<lparr>enableVisionFallback = JUndefined, visionFallbackModel = JUndefined,
                          visionFallbackCustomModel = JUndefined\<rparr>\<rparr>"

section \<open>The cache of model listings\<close>

text \<open>The branches of \<^verbatim>\<open>getAvailableModels\<close>, with the fetch written out.\<close>

lemma getAvailableModels_cases:
  "getAvailableModels resp tok now s =
     (case cache s (hashToken tok) of
        Some c \<Rightarrow>
          if now < expiresAt c \<or> now - fetchedAt c < MIN_REFRESH_INTERVAL_MS then (Inr (models c), s)
          else (case resp of
                  Inr ms \<Rightarrow> (Inr ms, s\<lparr>fetches := fetches s + 1,
                       cache := (cache s)(hashToken tok \<mapsto>
                          \<lparr>models = ms, fetchedAt = now,
                           expiresAt = now + CACHE_DURATION_MS, tokenHash = hashToken tok\<rparr>)\<rparr>)
                | Inl e \<Rightarrow> (Inr (models c), s\<lparr>fetches := fetches s + 1\<rparr>))
      | None \<Rightarrow>
          (case resp of
             Inr ms \<Rightarrow> (Inr ms, s\<lparr>fetches := fetches s + 1,
                       cache := (cache s)(hashToken tok \<mapsto>
                          \<lparr>models = ms, fetchedAt = now,
                           expiresAt = now + CACHE_DURATION_MS, tokenHash = hashToken tok\<rparr>)\<rparr>)
           | Inl e \<Rightarrow> (Inl e, s\<lparr>fetches := fetches s + 1\<rparr>)))"
  by (simp add: getAvailableModels_def fetchModelsFromAPI_def Let_def split: option.split sum.split)

lemma getAvailableModels_success_cached:
  assumes "getAvailableModels resp tok now s = (Inr ms, s')"
  shows "\<exists>c. cache s' (hashToken tok) = Some c \<and> models c = ms"
  using assms by (auto simp: getAvailableModels_cases split: option.splits sum.splits if_splits)

lemma getAvailableModels_fresh:
  assumes "cache s (hashToken tok) = Some c" and "now < expiresAt c"
  shows "getAvailableModels resp tok now s = (Inr (models c), s)"
  using assms by (simp add: getAvailableModels_cases)

lemma getAvailableModels_expired_failure:
  assumes "cache s (hashToken tok) = Some c"
    and "expiresAt c = fetchedAt c + CACHE_DURATION_MS"
    and "expiresAt c \<le> now"
  shows "getAvailableModels (Inl e) tok now s = (Inr (models c), s\<lparr>fetches := fetches s + 1\<rparr>)"
  using assms
  by (simp add: getAvailableModels_cases CACHE_DURATION_MS_def MIN_REFRESH_INTERVAL_MS_def)

lemma getModelFromCache_find:
  "getModelFromCache s tok mid =
     (case cache s (hashToken tok) of None \<Rightarrow> None
      | Some c \<Rightarrow> find (\<lambda>m. model_id m = mid) (models c))"
  by (simp add: getModelFromCache_def)

lemma modelSupportsVision_None_iff:
  "modelSupportsVision s tok mid = None \<longleftrightarrow> getModelFromCache s tok mid = None"
  by (cases "getModelFromCache s tok mid") (auto simp: modelSupportsVision_def)

lemma modelSupportsVision_True_iff:
  "modelSupportsVision s tok mid = Some True \<longleftrightarrow>
     (\<exists>m. getModelFromCache s tok mid = Some m \<and>
          (supportsVisionField m = JBool True \<or> truthy (limitsVisionField m)))"
  by (cases "getModelFromCache s tok mid") (auto simp: modelSupportsVision_def)

lemma hashToken_sentinel:
  "tok = JStr [] \<or> tok = JNull \<or> tok = JUndefined \<or> \<not> typeofString tok
     \<Longrightarrow> hashToken tok = ''models_default''"
  by (auto simp: hashToken_def)

text \<open>
  C2.  \<^verbatim>\<open>getAvailableModels\<close> raises exactly when the fetch fails and the cache holds no
  entry for the credential's key.  Whenever an entry exists, fresh or expired, a failed
  fetch is absorbed: the cached models are returned and the cache is left as it was.
\<close>

theorem getAvailableModels_raises_iff:
  "(fst (getAvailableModels resp tok now s) = Inl e \<longleftrightarrow>
      resp = Inl e \<and> cache s (hashToken tok) = None) \<and>
   (\<forall>c. cache s (hashToken tok) = Some c \<and> resp = Inl e \<longrightarrow>
      fst (getAvailableModels resp tok now s) = Inr (models c) \<and>
      cache (snd (getAvailableModels resp tok now s)) = cache s)"
  by (auto simp: getAvailableModels_cases split: option.splits sum.splits)

theorem getAvailableModels_raises_iff_witness:
  "cache emptyState (hashToken (JStr ''gho_abc123'')) = None \<and>
   fst (getAvailableModels (Inl fetchFailure) (JStr ''gho_abc123'') 0 emptyState)
     = Inl fetchFailure \<and>
   cache (staleState (JStr ''gho_abc123'')) (hashToken (JStr ''gho_abc123''))
     = Some \<lparr>models = [visionModel, textModel], fetchedAt = 0, expiresAt = 3600000,
              tokenHash = hashToken (JStr ''gho_abc123'')\<rparr> \<and>
   fst (getAvailableModels (Inl fetchFailure) (JStr ''gho_abc123'') 7200000
          (staleState (JStr ''gho_abc123''))) = Inr [visionModel, textModel]"
proof -
  have none: "cache emptyState (hashToken (JStr ''gho_abc123'')) = None"
    by (simp add: emptyState_def)
  have some: "cache (staleState (JStr ''gho_abc123'')) (hashToken (JStr ''gho_abc123''))
      = Some \<lparr>models = [visionModel, textModel], fetchedAt = 0, expiresAt = 3600000,
               tokenHash = hashToken (JStr ''gho_abc123'')\<rparr>"
    by (simp add: staleState_def)
  from getAvailableModels_raises_iff
         [of "Inl fetchFailure" "JStr ''gho_abc123''" 0 emptyState fetchFailure] none
  have first: "fst (getAvailableModels (Inl fetchFailure) (JStr ''gho_abc123'') 0 emptyState)
     = Inl fetchFailure"
    by simp
  from getAvailableModels_raises_iff
         [of "Inl fetchFailure" "JStr ''gho_abc123''" 7200000 "staleState (JStr ''gho_abc123'')"
             fetchFailure]
       some
  have "fst (getAvailableModels (Inl fetchFailure) (JStr ''gho_abc123'') 7200000
          (staleState (JStr ''gho_abc123''))) = Inr [visionModel, textModel]"
    by simp
  with none first some show ?thesis by simp
qed

lemma getAvailableModels_fetched:
  assumes "getAvailableModels resp tok now s = (Inr ms, s')"
    and "fetches s' \<noteq> fetches s" and "resp = Inr fetched"
  shows "ms = fetched \<and>
         cache s' (hashToken tok) =
           Some \<lparr>models = fetched, fetchedAt = now, expiresAt = now + CACHE_DURATION_MS,
                 tokenHash = hashToken tok\<rparr>"
  using assms
  by (auto simp: getAvailableModels_cases split: option.splits if_splits)

lemma getAvailableModels_not_fetched:
  assumes "getAvailableModels resp tok now s = (r, s')" and "fetches s' = fetches s"
  shows "s' = s"
  using assms
  by (auto simp: getAvailableModels_cases split: option.splits if_splits sum.splits)

lemma getAvailableModels_fetch_count:
  "fetches (snd (getAvailableModels resp tok now s)) = fetches s \<or>
   fetches (snd (getAvailableModels resp tok now s)) = fetches s + 1"
  by (auto simp: getAvailableModels_cases split: option.splits if_splits sum.splits)

text \<open>
  C6.  After a successful call the cache holds the returned models under the credential's
  key.  The call either made no fetch and left the state as it was, or made exactly one.
  Whenever its fetch succeeded, from an empty key or as the refresh of an expired entry,
  the entry is written with the time of the call as its fetch time and expires one hour
  (3600000 ms) after it; a call from an empty key always fetches.  Every later call before
  the expiry returns the same models and leaves the state, fetch counter included,
  unchanged, so that no call within one hour of a successful fetch reaches the provider.
\<close>

theorem getAvailableModels_within_ttl:
  assumes "getAvailableModels resp1 tok t1 s = (Inr ms, s1)"
  shows "\<exists>c. cache s1 (hashToken tok) = Some c \<and> models c = ms \<and>
           (cache s (hashToken tok) = None \<longrightarrow>
              expiresAt c = t1 + 3600000 \<and> fetches s1 = fetches s + 1) \<and>
           (fetches s1 = fetches s \<longrightarrow> s1 = s) \<and>
           (fetches s1 \<noteq> fetches s \<longrightarrow> fetches s1 = fetches s + 1) \<and>
           (fetches s1 \<noteq> fetches s \<and> (\<exists>fetched. resp1 = Inr fetched) \<longrightarrow>
              resp1 = Inr ms \<and> fetchedAt c = t1 \<and> expiresAt c = t1 + 3600000 \<and>
              (\<forall>t2 resp2. t2 < t1 + 3600000 \<longrightarrow>
                 getAvailableModels resp2 tok t2 s1 = (Inr ms, s1))) \<and>
           (\<forall>t2 resp2. t2 < expiresAt c \<longrightarrow>
              getAvailableModels resp2 tok t2 s1 = (Inr ms, s1))"
proof -
  from getAvailableModels_success_cached [OF assms]
  obtain c where c: "cache s1 (hashToken tok) = Some c" "models c = ms" by blast
  have ttl: "cache s (hashToken tok) = None \<longrightarrow>
              expiresAt c = t1 + 3600000 \<and> fetches s1 = fetches s + 1"
  proof
    assume n: "cache s (hashToken tok) = None"
    from assms n have s1: "s1 = s\<lparr>fetches := fetches s + 1,
        cache := (cache s)(hashToken tok \<mapsto>
          \<lparr>models = ms, fetchedAt = t1,
           expiresAt = t1 + CACHE_DURATION_MS, tokenHash = hashToken tok\<rparr>)\<rparr>"
      by (auto simp: getAvailableModels_cases split: sum.splits)
    from s1 c(1) have "c = \<lparr>models = ms, fetchedAt = t1,
           expiresAt = t1 + CACHE_DURATION_MS, tokenHash = hashToken tok\<rparr>"
      by simp
    then show "expiresAt c = t1 + 3600000 \<and> fetches s1 = fetches s + 1"
      using s1 by (simp add: CACHE_DURATION_MS_def)
  qed
  have hit: "\<forall>t2 resp2. t2 < expiresAt c \<longrightarrow>
              getAvailableModels resp2 tok t2 s1 = (Inr ms, s1)"
    using getAvailableModels_fresh [OF c(1)] c(2) by simp
  have same: "fetches s1 = fetches s \<longrightarrow> s1 = s"
    using getAvailableModels_not_fetched [OF assms] by blast
  have one: "fetches s1 \<noteq> fetches s \<longrightarrow> fetches s1 = fetches s + 1"
    using getAvailableModels_fetch_count [of resp1 tok t1 s] assms by auto
  have refreshed: "fetches s1 \<noteq> fetches s \<and> (\<exists>fetched. resp1 = Inr fetched) \<longrightarrow>
              resp1 = Inr ms \<and> fetchedAt c = t1 \<and> expiresAt c = t1 + 3600000 \<and>
              (\<forall>t2 resp2. t2 < t1 + 3600000 \<longrightarrow>
                 getAvailableModels resp2 tok t2 s1 = (Inr ms, s1))"
  proof
    assume a: "fetches s1 \<noteq> fetches s \<and> (\<exists>fetched. resp1 = Inr fetched)"
    then obtain fetched where f: "resp1 = Inr fetched" by blast
    from getAvailableModels_fetched [OF assms _ f] a
    have ms: "ms = fetched"
      and e: "cache s1 (hashToken tok) =
           Some \<lparr>models = fetched, fetchedAt = t1, expiresAt = t1 + CACHE_DURATION_MS,
                 tokenHash = hashToken tok\<rparr>"
      by simp_all
    from e c(1) have ce: "c = \<lparr>models = fetched, fetchedAt = t1,
        expiresAt = t1 + CACHE_DURATION_MS, tokenHash = hashToken tok\<rparr>"
      by simp
    then have times: "fetchedAt c = t1" "expiresAt c = t1 + 3600000"
      by (simp_all add: CACHE_DURATION_MS_def)
    with hit have "\<forall>t2 resp2. t2 < t1 + 3600000 \<longrightarrow>
                 getAvailableModels resp2 tok t2 s1 = (Inr ms, s1)"
      by simp
    with f ms times show "resp1 = Inr ms \<and> fetchedAt c = t1 \<and> expiresAt c = t1 + 3600000 \<and>
              (\<forall>t2 resp2. t2 < t1 + 3600000 \<longrightarrow>
                 getAvailableModels resp2 tok t2 s1 = (Inr ms, s1))"
      by simp
  qed
  show ?thesis
    by (rule exI [of _ c]) (intro conjI c ttl same one refreshed hit)
qed

theorem getAvailableModels_within_ttl_witness:
  "getAvailableModels (Inr [visionModel]) (JStr ''gho_abc123'') 1000 emptyState =
     (Inr [visionModel],
      \<lparr>cache = [hashToken (JStr ''gho_abc123'') \<mapsto>
          \<lparr>models = [visionModel], fetchedAt = 1000, expiresAt = 3601000,
           tokenHash = hashToken (JStr ''gho_abc123'')\<rparr>], fetches = 1\<rparr>) \<and>
   fst (getAvailableModels (Inl fetchFailure) (JStr ''gho_abc123'') 3600999
     \<lparr>cache = [hashToken (JStr ''gho_abc123'') \<mapsto>
          \<lparr>models = [visionModel], fetchedAt = 1000, expiresAt = 3601000,
           tokenHash = hashToken (JStr ''gho_abc123'')\<rparr>], fetches = 1\<rparr>) = Inr [visionModel] \<and>
   fetches (snd (getAvailableModels (Inl fetchFailure) (JStr ''gho_abc123'') 3600999
     \<lparr>cache = [hashToken (JStr ''gho_abc123'') \<mapsto>
          \<lparr>models = [visionModel], fetchedAt = 1000, expiresAt = 3601000,
           tokenHash = hashToken (JStr ''gho_abc123'')\<rparr>], fetches = 1\<rparr>)) = 1 \<and>
   getAvailableModels (Inr [visionModel]) (JStr ''gho_abc123'') 3600000
       (staleState (JStr ''gho_abc123'')) =
     (Inr [visionModel],
      \<lparr>cache = [hashToken (JStr ''gho_abc123'') \<mapsto>
          \<lparr>models = [visionModel], fetchedAt = 3600000, expiresAt = 7200000,
           tokenHash = hashToken (JStr ''gho_abc123'')\<rparr>], fetches = 2\<rparr>) \<and>
   getAvailableModels (Inl fetchFailure) (JStr ''gho_abc123'') 7199999
     \<lparr>cache = [hashToken (JStr ''gho_abc123'') \<mapsto>
          \<lparr>models = [visionModel], fetchedAt = 3600000, expiresAt = 7200000,
           tokenHash = hashToken (JStr ''gho_abc123'')\<rparr>], fetches = 2\<rparr> =
     (Inr [visionModel],
      \<lparr>cache = [hashToken (JStr ''gho_abc123'') \<mapsto>
          \<lparr>models = [visionModel], fetchedAt = 3600000, expiresAt = 7200000,
           tokenHash = hashToken (JStr ''gho_abc123'')\<rparr>], fetches = 2\<rparr>)"
proof -
  let ?tok = "JStr ''gho_abc123''"
  let ?s1 = "\<lparr>cache = [hashToken ?tok \<mapsto>
          \<lparr>models = [visionModel], fetchedAt = 1000, expiresAt = 3601000,
           tokenHash = hashToken ?tok\<rparr>], fetches = 1\<rparr>"
  let ?s2 = "\<lparr>cache = [hashToken ?tok \<mapsto>
          \<lparr>models = [visionModel], fetchedAt = 3600000, expiresAt = 7200000,
           tokenHash = hashToken ?tok\<rparr>], fetches = 2\<rparr>"
  have first: "getAvailableModels (Inr [visionModel]) ?tok 1000 emptyState =
     (Inr [visionModel], ?s1)"
    by (simp add: getAvailableModels_cases emptyState_def CACHE_DURATION_MS_def)
  from getAvailableModels_within_ttl [OF first]
  have hit1: "getAvailableModels (Inl fetchFailure) ?tok 3600999 ?s1
          = (Inr [visionModel], ?s1)"
    by simp
  have refresh: "getAvailableModels (Inr [visionModel]) ?tok 3600000 (staleState ?tok) =
     (Inr [visionModel], ?s2)"
    by (simp add: getAvailableModels_cases staleState_def CACHE_DURATION_MS_def
          MIN_REFRESH_INTERVAL_MS_def)
  have fetched: "fetches ?s2 \<noteq> fetches (staleState ?tok)"
    by (simp add: staleState_def)
  from getAvailableModels_within_ttl [OF refresh] fetched
  have "\<forall>t2 resp2. t2 < 3600000 + 3600000 \<longrightarrow>
          getAvailableModels resp2 ?tok t2 ?s2 = (Inr [visionModel], ?s2)"
    by simp
  then have hit2: "getAvailableModels (Inl fetchFailure) ?tok 7199999 ?s2
          = (Inr [visionModel], ?s2)"
    by simp
  from first hit1 refresh hit2 show ?thesis by simp
qed

text \<open>
  C4.  \<^verbatim>\<open>modelSupportsVision\<close> reads the cache and nothing else.  It answers unknown
  exactly when the credential's key has no entry or no cached descriptor has the model id.
  After a successful \<^verbatim>\<open>getAvailableModels\<close> it answers true exactly when the first returned
  descriptor with that id has \<^verbatim>\<open>supports.vision === true\<close> or a truthy \<^verbatim>\<open>limits.vision\<close>.
\<close>

theorem modelSupportsVision_from_cache:
  "(cache s = cache s2 \<longrightarrow> modelSupportsVision s tok mid = modelSupportsVision s2 tok mid) \<and>
   (modelSupportsVision s tok mid = None \<longleftrightarrow>
      (cache s (hashToken tok) = None \<or>
       (\<exists>c. cache s (hashToken tok) = Some c \<and> mid \<notin> model_id ` set (models c)))) \<and>
   (\<forall>resp now s0 ms. getAvailableModels resp tok now s0 = (Inr ms, s) \<longrightarrow>
      (modelSupportsVision s tok mid = Some True \<longleftrightarrow>
         (\<exists>m. find (\<lambda>m. model_id m = mid) ms = Some m \<and>
              (supportsVisionField m = JBool True \<or> truthy (limitsVisionField m)))))"
proof (intro conjI allI impI)
  assume "cache s = cache s2"
  then show "modelSupportsVision s tok mid = modelSupportsVision s2 tok mid"
    by (simp add: modelSupportsVision_def getModelFromCache_def)
next
  show "modelSupportsVision s tok mid = None \<longleftrightarrow>
      (cache s (hashToken tok) = None \<or>
       (\<exists>c. cache s (hashToken tok) = Some c \<and> mid \<notin> model_id ` set (models c)))"
    by (auto simp: modelSupportsVision_None_iff getModelFromCache_find find_None_iff
             split: option.splits)
next
  fix resp now s0 ms
  assume "getAvailableModels resp tok now s0 = (Inr ms, s)"
  from getAvailableModels_success_cached [OF this]
  obtain c where "cache s (hashToken tok) = Some c" "models c = ms" by blast
  then show "modelSupportsVision s tok mid = Some True \<longleftrightarrow>
         (\<exists>m. find (\<lambda>m. model_id m = mid) ms = Some m \<and>
              (supportsVisionField m = JBool True \<or> truthy (limitsVisionField m)))"
    by (simp add: modelSupportsVision_True_iff getModelFromCache_find)
qed

theorem modelSupportsVision_from_cache_witness:
  "modelSupportsVision emptyState (JStr ''gho_abc123'') ''gpt-4o'' = None \<and>
   modelSupportsVision (staleState (JStr ''gho_abc123'')) (JStr ''gho_abc123'') ''gpt-5'' = None \<and>
   getAvailableModels (Inl fetchFailure) (JStr ''gho_abc123'') 10
       (staleState (JStr ''gho_abc123''))
     = (Inr [visionModel, textModel], staleState (JStr ''gho_abc123'')) \<and>
   modelSupportsVision (staleState (JStr ''gho_abc123'')) (JStr ''gho_abc123'') ''gpt-4o''
     = Some True \<and>
   modelSupportsVision (staleState (JStr ''gho_abc123'')) (JStr ''gho_abc123'') ''o1-mini''
     \<noteq> Some True"
proof -
  let ?tok = "JStr ''gho_abc123''"
  have call: "getAvailableModels (Inl fetchFailure) ?tok 10 (staleState ?tok)
     = (Inr [visionModel, textModel], staleState ?tok)"
    by (simp add: getAvailableModels_cases staleState_def)
  have ids: "model_id visionModel = ''gpt-4o''" "model_id textModel = ''o1-mini''"
    by (simp_all add: visionModel_def textModel_def)
  have caps: "supportsVisionField visionModel = JBool True"
    "supportsVisionField textModel = JUndefined" "limitsVisionField textModel = JUndefined"
    by (simp_all add: visionModel_def textModel_def supportsVisionField_def limitsVisionField_def)
  have a: "modelSupportsVision emptyState ?tok ''gpt-4o'' = None"
    using modelSupportsVision_from_cache [of emptyState emptyState ?tok "''gpt-4o''"]
    by (simp add: emptyState_def)
  have b: "modelSupportsVision (staleState ?tok) ?tok ''gpt-5'' = None"
    using modelSupportsVision_from_cache [of "staleState ?tok" "staleState ?tok" ?tok "''gpt-5''"]
    by (simp add: staleState_def ids)
  have c: "modelSupportsVision (staleState ?tok) ?tok ''gpt-4o'' = Some True"
    using modelSupportsVision_from_cache [of "staleState ?tok" "staleState ?tok" ?tok "''gpt-4o''"]
          call
    by (simp add: ids caps)
  have d: "modelSupportsVision (staleState ?tok) ?tok ''o1-mini'' \<noteq> Some True"
    using modelSupportsVision_from_cache [of "staleState ?tok" "staleState ?tok" ?tok "''o1-mini''"]
          call
    by (simp add: ids caps)
  from a b call c d show ?thesis by simp
qed

text \<open>
  C3.  The cooldown does not hold after a failed refresh.  A first call at time 0 fetches
  and caches the listing, which expires at 3600000.  A call at 3600000 whose fetch fails
  and another call one millisecond later both reach the provider and both return the stale
  listing: the fetch counter goes from 1 to 2 to 3.
\<close>

theorem getAvailableModels_refetch_after_failure:
  "getAvailableModels (Inr [visionModel, textModel]) tok 0 emptyState
     = (Inr [visionModel, textModel], staleState tok) \<and>
   getAvailableModels (Inl fetchFailure) tok 3600000 (staleState tok)
     = (Inr [visionModel, textModel], (staleState tok)\<lparr>fetches := 2\<rparr>) \<and>
   getAvailableModels (Inl fetchFailure) tok 3600001 ((staleState tok)\<lparr>fetches := 2\<rparr>)
     = (Inr [visionModel, textModel], (staleState tok)\<lparr>fetches := 3\<rparr>)"
  by (simp add: getAvailableModels_cases staleState_def emptyState_def
        MIN_REFRESH_INTERVAL_MS_def CACHE_DURATION_MS_def)

text \<open>
  C8, as the code has it.  A degenerate credential (empty string, \<^verbatim>\<open>null\<close>, \<^verbatim>\<open>undefined\<close> or
  not a string) hashes to the fixed key \<^verbatim>\<open>models_default\<close>.  A capability lookup with it
  answers unknown whenever nothing is cached under that key.  \<^verbatim>\<open>getAvailableModels\<close> does not
  validate the credential: with no entry under that key it makes the outbound fetch and
  returns or raises what the fetch produces.  A failed fetch leaves the cache unchanged.
\<close>

theorem degenerate_credential:
  assumes "tok = JStr [] \<or> tok = JNull \<or> tok = JUndefined \<or> \<not> typeofString tok"
  shows "hashToken tok = ''models_default'' \<and>
         (cache s ''models_default'' = None \<longrightarrow> modelSupportsVision s tok mid = None) \<and>
         (cache s ''models_default'' = None \<longrightarrow>
            fst (getAvailableModels resp tok now s) = resp \<and>
            fetches (snd (getAvailableModels resp tok now s)) = fetches s + 1) \<and>
         (\<forall>e. resp = Inl e \<longrightarrow> cache (snd (getAvailableModels resp tok now s)) = cache s)"
proof -
  have h: "hashToken tok = ''models_default''"
    by (rule hashToken_sentinel [OF assms])
  have lookup: "cache s ''models_default'' = None \<longrightarrow> modelSupportsVision s tok mid = None"
    by (simp add: modelSupportsVision_def getModelFromCache_def h)
  have fetch: "cache s ''models_default'' = None \<longrightarrow>
            fst (getAvailableModels resp tok now s) = resp \<and>
            fetches (snd (getAvailableModels resp tok now s)) = fetches s + 1"
    by (cases resp) (simp_all add: getAvailableModels_cases h)
  have keep: "\<forall>e. resp = Inl e \<longrightarrow> cache (snd (getAvailableModels resp tok now s)) = cache s"
    by (cases "cache s (hashToken tok)") (auto simp: getAvailableModels_cases)
  from h lookup fetch keep show ?thesis by simp
qed

theorem degenerate_credential_witness:
  "\<not> typeofString (JNum 42) \<and>
   hashToken (JNum 42) = ''models_default'' \<and>
   modelSupportsVision emptyState (JNum 42) ''gpt-4o'' = None \<and>
   fst (getAvailableModels (Inl fetchFailure) (JNum 42) 0 emptyState) = Inl fetchFailure \<and>
   fetches (snd (getAvailableModels (Inl fetchFailure) (JNum 42) 0 emptyState)) = 1 \<and>
   cache (snd (getAvailableModels (Inl fetchFailure) (JNum 42) 0 emptyState)) = Map.empty"
  using degenerate_credential [of "JNum 42" emptyState "''gpt-4o''" "Inl fetchFailure" 0]
  by (simp add: emptyState_def)

text \<open>
  C8 as stated fails: with a degenerate credential a failing fetch is still an outbound
  request, a succeeding one is cached under the sentinel key, and a lookup with another
  degenerate credential then answers from that entry.
\<close>

theorem degenerate_credential_counterexample:
  "fetches (snd (getAvailableModels (Inl fetchFailure) JUndefined 0 emptyState)) = 1 \<and>
   fst (getAvailableModels (Inr [visionModel]) JUndefined 0 emptyState) = Inr [visionModel] \<and>
   modelSupportsVision (snd (getAvailableModels (Inr [visionModel]) JUndefined 0 emptyState))
     JNull ''gpt-4o'' = Some True"
  by (simp add: getAvailableModels_cases emptyState_def hashToken_def modelSupportsVision_def
        getModelFromCache_def visionModel_def supportsVisionField_def)

section \<open>Vision detection\<close>

lemma hasVisionContent_iff: "hasVisionContent ms \<longleftrightarrow> list_ex messageHasVision ms"
  by (induction ms) simp_all

lemma js_includes_iff: "js_includes s t \<longleftrightarrow> (\<exists>p q. s = p @ t @ q)"
proof (induction s)
  case Nil
  then show ?case by simp
next
  case (Cons c cs)
  show ?case
  proof
    assume "js_includes (c # cs) t"
    then consider "prefix t (c # cs)" | "js_includes cs t" by auto
    then show "\<exists>p q. c # cs = p @ t @ q"
    proof cases
      case 1
      then obtain q where "c # cs = t @ q" by (auto simp: prefix_def)
      then have "c # cs = [] @ t @ q" by simp
      then show ?thesis by blast
    next
      case 2
      with Cons.IH obtain p q where "cs = p @ t @ q" by blast
      then have "c # cs = (c # p) @ t @ q" by simp
      then show ?thesis by blast
    qed
  next
    assume "\<exists>p q. c # cs = p @ t @ q"
    then obtain p q where pq: "c # cs = p @ t @ q" by blast
    show "js_includes (c # cs) t"
    proof (cases p)
      case Nil
      with pq have "prefix t (c # cs)" by (simp add: prefix_def)
      then show ?thesis by simp
    next
      case (Cons a p')
      with pq have "cs = p' @ t @ q" by simp
      with Cons.IH have "js_includes cs t" by blast
      then show ?thesis by simp
    qed
  qed
qed

text \<open>What is enough for the detection to answer true: a message-level type \<^verbatim>\<open>file\<close> or
  \<^verbatim>\<open>image\<close>, an image part in a content array, or a string that starts as a base64 image
  data URL, whatever the length of its payload.\<close>

lemma hasVisionContent_sufficient:
  assumes "m \<in> set ms"
    and "msg_type m = JStr ''file'' \<or> msg_type m = JStr ''image''
         \<or> (\<exists>ps p. msg_content m = CArray ps \<and> p \<in> set ps \<and> partIsImage p)
         \<or> (\<exists>mime d. msg_content m = CString (''data:image/'' @ mime @ '';base64,'' @ d))"
  shows "hasVisionContent ms"
proof -
  have url: "js_includes (''data:image/'' @ mime @ '';base64,'' @ d) ''data:image/''" for mime d
    by simp
  have "messageHasVision m"
    using assms(2) url
    by (auto simp: messageHasVision_def list_ex_iff simp del: js_includes.simps append.simps)
  with assms(1) show ?thesis by (auto simp: hasVisionContent_iff list_ex_iff)
qed

text \<open>The two examples of the specification.\<close>

lemma hasVisionContent_spec_examples:
  "hasVisionContent [textMessage (''data:image/png;base64,'' @ replicate 60 CHR ''A'')] \<and>
   \<not> hasVisionContent [textMessage ''this json has the word image in it'']"
  by (simp add: textMessage_def messageHasVision_def startsWith_def)

text \<open>
  C1.  The detection has no threshold on the length of the encoded data: a data URL with
  four characters of payload is detected, and so is plain text that has the word
  \<^verbatim>\<open>image\<close> between square brackets.
\<close>

theorem hasVisionContent_below_threshold:
  "hasVisionContent [textMessage ''data:image/png;base64,AAAA''] \<and>
   hasVisionContent [textMessage ''see [image] in the attachment'']"
proof -
  have "hasVisionContent [textMessage ''data:image/png;base64,AAAA'']"
    by (simp add: textMessage_def messageHasVision_def)
  moreover have "hasVisionContent [textMessage ''see [image] in the attachment'']"
    by code_simp
  ultimately show ?thesis by simp
qed

section \<open>The model that is sent upstream\<close>

lemma mapModel_cases:
  "mapModel m =
     (if m = ''gpt-4'' \<or> m = ''gpt-4-turbo'' then ModelId ''gpt-4o''
      else if m = ''claude-3-5-sonnet'' \<or> m = ''claude-3.5-sonnet-20241022''
           then ModelId ''claude-3.5-sonnet''
      else if m \<in> set objectPrototypeMembers then InheritedMember m
      else ModelId m)"
  by (simp add: mapModel_def modelMapping_def objectPrototypeMembers_def)

lemma visionFallback_no_vision:
  "visionFallback s credentials staticVision opts False cm = Inr cm"
  by (simp add: visionFallback_def)

lemma visionFallback_supported:
  "supportsVision s tok staticVision cm
     \<Longrightarrow> visionFallback s (Inr tok) staticVision opts True cm = Inr cm"
  by (simp add: visionFallback_def bindE_def)

lemma js_includes_middle: "js_includes (p @ t @ q) t"
  unfolding js_includes_iff by blast

lemma visionUnsupportedMessage_names: "js_includes (visionUnsupportedMessage cm) (modelText cm)"
  unfolding visionUnsupportedMessage_def by (rule js_includes_middle)

lemma visionFallback_unsupported:
  assumes "\<not> supportsVision s tok staticVision cm"
  shows "visionFallback s (Inr tok) staticVision opts True cm =
     (if truthy (enableVisionFallback opts) then
        (if \<not> truthy (fallbackModel opts)
         then Inl (Js (NodeOperationError visionFallbackMissingMessage))
         else (case fallbackModel opts of
                 JStr f \<Rightarrow>
                   if trim f = []
                   then Inl (Js (NodeOperationError visionFallbackMissingMessage))
                   else Inr (ModelId f)
               | _ \<Rightarrow> Inl (Js TypeError)))
      else Inl (Js (NodeOperationError (visionUnsupportedMessage cm))))"
  using assms by (simp add: visionFallback_def bindE_def)

text \<open>
  C7, as the code has it.  When the messages have no vision content, or the credentials are
  read and the mapped model supports vision, the model sent upstream is
  \<^verbatim>\<open>modelMapping[model] || model\<close>.  That is the requested id itself unless the request
  names one of the aliases \<^verbatim>\<open>gpt-4\<close>, \<^verbatim>\<open>gpt-4-turbo\<close>, \<^verbatim>\<open>claude-3-5-sonnet\<close> and
  \<^verbatim>\<open>claude-3.5-sonnet-20241022\<close>, or a member that the mapping object inherits.
\<close>

theorem resolveModel_mapped:
  assumes "\<not> hasVisionContent msgs \<or>
           (credentials = Inr tok \<and> supportsVision s tok staticVision (mapModel requested))"
  shows "resolveModel s credentials staticVision opts msgs requested = Inr (mapModel requested) \<and>
         (requested \<notin> {''gpt-4'', ''gpt-4-turbo'', ''claude-3-5-sonnet'',
                         ''claude-3.5-sonnet-20241022''} \<and>
          requested \<notin> set objectPrototypeMembers
            \<longrightarrow> mapModel requested = ModelId requested)"
proof
  show "resolveModel s credentials staticVision opts msgs requested = Inr (mapModel requested)"
  proof (cases "hasVisionContent msgs")
    case False
    then show ?thesis by (simp add: resolveModel_def visionFallback_no_vision)
  next
    case True
    with assms have "credentials = Inr tok"
      and "supportsVision s tok staticVision (mapModel requested)" by simp_all
    with True show ?thesis by (simp add: resolveModel_def visionFallback_supported)
  qed
next
  show "requested \<notin> {''gpt-4'', ''gpt-4-turbo'', ''claude-3-5-sonnet'',
                         ''claude-3.5-sonnet-20241022''} \<and>
          requested \<notin> set objectPrototypeMembers
            \<longrightarrow> mapModel requested = ModelId requested"
    by (simp add: mapModel_cases)
qed

theorem resolveModel_mapped_witness:
  "\<not> hasVisionContent [textMessage ''Summarise this text''] \<and>
   resolveModel emptyState (Inr (JStr ''gho_abc123'')) noStaticVision noFallback
     [textMessage ''Summarise this text''] ''claude-sonnet-4'' = Inr (ModelId ''claude-sonnet-4'') \<and>
   hasVisionContent [imageMessage] \<and>
   supportsVision (staleState (JStr ''gho_abc123'')) (JStr ''gho_abc123'') noStaticVision
     (mapModel ''gpt-4o'') \<and>
   resolveModel (staleState (JStr ''gho_abc123'')) (Inr (JStr ''gho_abc123'')) noStaticVision
     noFallback [imageMessage] ''gpt-4o'' = Inr (ModelId ''gpt-4o'')"
proof -
  let ?tok = "JStr ''gho_abc123''"
  have nv: "\<not> hasVisionContent [textMessage ''Summarise this text'']"
    by (simp add: textMessage_def messageHasVision_def startsWith_def)
  have plain: "''claude-sonnet-4'' \<notin> {''gpt-4'', ''gpt-4-turbo'', ''claude-3-5-sonnet'',
                         ''claude-3.5-sonnet-20241022''} \<and>
        ''claude-sonnet-4'' \<notin> set objectPrototypeMembers"
    by (simp add: objectPrototypeMembers_def)
  from nv plain resolveModel_mapped [of "[textMessage ''Summarise this text'']"
      "Inr ?tok" ?tok emptyState noStaticVision "''claude-sonnet-4''" noFallback]
  have a: "resolveModel emptyState (Inr ?tok) noStaticVision noFallback
     [textMessage ''Summarise this text''] ''claude-sonnet-4'' = Inr (ModelId ''claude-sonnet-4'')"
    by simp
  have v: "hasVisionContent [imageMessage]"
    by (simp add: imageMessage_def textMessage_def messageHasVision_def)
  have m: "mapModel ''gpt-4o'' = ModelId ''gpt-4o''"
    by (simp add: mapModel_def modelMapping_def)
  have sv: "supportsVision (staleState ?tok) ?tok noStaticVision (mapModel ''gpt-4o'')"
    by (simp add: m supportsVision_def modelSupportsVision_def getModelFromCache_def
          staleState_def visionModel_def supportsVisionField_def)
  have h: "\<not> hasVisionContent [imageMessage] \<or>
      (Inr ?tok = (Inr ?tok :: node_error + jsval) \<and>
       supportsVision (staleState ?tok) ?tok noStaticVision (mapModel ''gpt-4o''))"
    using sv by (intro disjI2 conjI refl)
  have b: "resolveModel (staleState ?tok) (Inr ?tok) noStaticVision noFallback
     [imageMessage] ''gpt-4o'' = Inr (ModelId ''gpt-4o'')"
    using resolveModel_mapped [OF h, where opts = noFallback, THEN conjunct1]
    by (simp only: m)
  from nv a v sv b show ?thesis by simp
qed

text \<open>
  C7 as stated fails: for a request without vision content that names \<^verbatim>\<open>gpt-4\<close> the model
  sent upstream is \<^verbatim>\<open>gpt-4o\<close>.
\<close>

theorem resolveModel_alias_counterexample:
  "\<not> hasVisionContent [textMessage ''Summarise this text''] \<and>
   resolveModel emptyState (Inr (JStr ''gho_abc123'')) noStaticVision noFallback
     [textMessage ''Summarise this text''] ''gpt-4'' = Inr (ModelId ''gpt-4o'') \<and>
   ModelId ''gpt-4o'' \<noteq> ModelId ''gpt-4''"
  by (simp add: textMessage_def messageHasVision_def startsWith_def resolveModel_def
        visionFallback_def mapModel_cases)

text \<open>
  C5, as the code has it.  The messages have vision content, the credentials are read and
  the mapped model does not support vision.  With the fallback enabled and a fallback
  model that is a string with a character other than white space, that model is sent.
  With the fallback enabled and a fallback model that is missing, empty or blank, the
  request fails with the fixed message about the missing fallback model, which names no
  model.  With the fallback disabled, the request fails with a message that names the
  mapped model.
\<close>

theorem resolveModel_vision_unsupported:
  assumes "hasVisionContent msgs"
    and "credentials = Inr tok"
    and "\<not> supportsVision s tok staticVision (mapModel requested)"
  shows "(truthy (enableVisionFallback opts) \<and> fallbackModel opts = JStr f \<and> trim f \<noteq> [] \<longrightarrow>
            resolveModel s credentials staticVision opts msgs requested = Inr (ModelId f)) \<and>
         (truthy (enableVisionFallback opts) \<and>
            (\<not> truthy (fallbackModel opts) \<or> (fallbackModel opts = JStr f \<and> trim f = [])) \<longrightarrow>
            resolveModel s credentials staticVision opts msgs requested =
              Inl (Js (NodeOperationError visionFallbackMissingMessage))) \<and>
         (\<not> truthy (enableVisionFallback opts) \<longrightarrow>
            resolveModel s credentials staticVision opts msgs requested =
              Inl (Js (NodeOperationError (visionUnsupportedMessage (mapModel requested)))) \<and>
            js_includes (visionUnsupportedMessage (mapModel requested))
              (modelText (mapModel requested)))"
proof -
  have r: "resolveModel s credentials staticVision opts msgs requested =
     (if truthy (enableVisionFallback opts) then
        (if \<not> truthy (fallbackModel opts)
         then Inl (Js (NodeOperationError visionFallbackMissingMessage))
         else (case fallbackModel opts of
                 JStr f \<Rightarrow>
                   if trim f = []
                   then Inl (Js (NodeOperationError visionFallbackMissingMessage))
                   else Inr (ModelId f)
               | _ \<Rightarrow> Inl (Js TypeError)))
      else Inl (Js (NodeOperationError (visionUnsupportedMessage (mapModel requested)))))"
    using assms(1,2) visionFallback_unsupported [OF assms(3)]
    by (simp add: resolveModel_def)
  have blank: "trim [] = []" by (simp add: trim_def)
  show ?thesis
    unfolding r using visionUnsupportedMessage_names blank
    by (cases "fallbackModel opts") auto
qed

theorem resolveModel_vision_unsupported_witness:
  "hasVisionContent [imageMessage] \<and>
   \<not> supportsVision emptyState (JStr ''gho_abc123'') noStaticVision (mapModel ''gpt-4o-mini'') \<and>
   resolveModel emptyState (Inr (JStr ''gho_abc123'')) noStaticVision
      \<lparr>enableVisionFallback = JBool False, visionFallbackModel = JUndefined,
       visionFallbackCustomModel = JUndefined\<rparr> [imageMessage] ''gpt-4o-mini''
     = Inl (Js (NodeOperationError (visionUnsupportedMessage (ModelId ''gpt-4o-mini'')))) \<and>
   js_includes (visionUnsupportedMessage (ModelId ''gpt-4o-mini'')) ''gpt-4o-mini'' \<and>
   resolveModel emptyState (Inr (JStr ''gho_abc123'')) noStaticVision
      \<lparr>enableVisionFallback = JBool True, visionFallbackModel = JStr ''gpt-4o'',
       visionFallbackCustomModel = JUndefined\<rparr> [imageMessage] ''gpt-4o-mini''
     = Inr (ModelId ''gpt-4o'') \<and>
   resolveModel emptyState (Inr (JStr ''gho_abc123'')) noStaticVision
      \<lparr>enableVisionFallback = JBool True, visionFallbackModel = JStr ''__manual__'',
       visionFallbackCustomModel = JStr ''claude-sonnet-4''\<rparr> [imageMessage] ''gpt-4o-mini''
     = Inr (ModelId ''claude-sonnet-4'')"
proof -
  let ?tok = "JStr ''gho_abc123''"
  have v: "hasVisionContent [imageMessage]"
    by (simp add: imageMessage_def textMessage_def messageHasVision_def)
  have m: "mapModel ''gpt-4o-mini'' = ModelId ''gpt-4o-mini''"
    by (simp add: mapModel_def modelMapping_def)
  have u: "\<not> supportsVision emptyState ?tok noStaticVision (mapModel ''gpt-4o-mini'')"
    by (simp add: supportsVision_def m modelSupportsVision_def getModelFromCache_def
          emptyState_def noStaticVision_def)
  have t1: "trim ''gpt-4o'' \<noteq> []" and t2: "trim ''claude-sonnet-4'' \<noteq> []"
    by (simp_all add: trim_def isSpace_def)
  note inst = resolveModel_vision_unsupported [OF v refl u]
  have a: "resolveModel emptyState (Inr ?tok) noStaticVision
      \<lparr>enableVisionFallback = JBool False, visionFallbackModel = JUndefined,
       visionFallbackCustomModel = JUndefined\<rparr> [imageMessage] ''gpt-4o-mini''
     = Inl (Js (NodeOperationError (visionUnsupportedMessage (ModelId ''gpt-4o-mini'')))) \<and>
     js_includes (visionUnsupportedMessage (ModelId ''gpt-4o-mini'')) ''gpt-4o-mini''"
    using inst [of "\<lparr>enableVisionFallback = JBool False, visionFallbackModel = JUndefined,
       visionFallbackCustomModel = JUndefined\<rparr>" "[]"]
    by (simp add: m modelText_def)
  have b: "resolveModel emptyState (Inr ?tok) noStaticVision
      \<lparr>enableVisionFallback = JBool True, visionFallbackModel = JStr ''gpt-4o'',
       visionFallbackCustomModel = JUndefined\<rparr> [imageMessage] ''gpt-4o-mini''
     = Inr (ModelId ''gpt-4o'')"
    using inst [of "\<lparr>enableVisionFallback = JBool True, visionFallbackModel = JStr ''gpt-4o'',
       visionFallbackCustomModel = JUndefined\<rparr>" "''gpt-4o''"] t1
    by (simp add: fallbackModel_def)
  have c: "resolveModel emptyState (Inr ?tok) noStaticVision
      \<lparr>enableVisionFallback = JBool True, visionFallbackModel = JStr ''__manual__'',
       visionFallbackCustomModel = JStr ''claude-sonnet-4''\<rparr> [imageMessage] ''gpt-4o-mini''
     = Inr (ModelId ''claude-sonnet-4'')"
    using inst [of "\<lparr>enableVisionFallback = JBool True, visionFallbackModel = JStr ''__manual__'',
       visionFallbackCustomModel = JStr ''claude-sonnet-4''\<rparr>" "''claude-sonnet-4''"] t2
    by (simp add: fallbackModel_def)
  from v u a b c show ?thesis by simp
qed

text \<open>
  C5 as stated fails: with the fallback enabled and no fallback model chosen, the error
  message does not contain the requested model \<^verbatim>\<open>gpt-4o-mini\<close>; a fallback model of one
  space, which is not empty, is not sent; and with the fallback disabled a request for
  \<^verbatim>\<open>gpt-4-turbo\<close> fails with a message that names \<^verbatim>\<open>gpt-4o\<close>, not the requested id.
\<close>

theorem resolveModel_fallback_counterexample:
  "hasVisionContent [imageMessage] \<and>
   \<not> supportsVision emptyState (JStr ''gho_abc123'') noStaticVision (mapModel ''gpt-4o-mini'') \<and>
   resolveModel emptyState (Inr (JStr ''gho_abc123'')) noStaticVision
      \<lparr>enableVisionFallback = JBool True, visionFallbackModel = JUndefined,
       visionFallbackCustomModel = JUndefined\<rparr> [imageMessage] ''gpt-4o-mini''
     = Inl (Js (NodeOperationError visionFallbackMissingMessage)) \<and>
   \<not> js_includes visionFallbackMissingMessage ''gpt-4o-mini'' \<and>
   resolveModel emptyState (Inr (JStr ''gho_abc123'')) noStaticVision
      \<lparr>enableVisionFallback = JBool True, visionFallbackModel = JStr '' '',
       visionFallbackCustomModel = JUndefined\<rparr> [imageMessage] ''gpt-4o-mini''
     \<noteq> Inr (ModelId '' '') \<and>
   resolveModel emptyState (Inr (JStr ''gho_abc123'')) noStaticVision noFallback
      [imageMessage] ''gpt-4-turbo''
     = Inl (Js (NodeOperationError (visionUnsupportedMessage (ModelId ''gpt-4o'')))) \<and>
   \<not> js_includes (visionUnsupportedMessage (ModelId ''gpt-4o'')) ''gpt-4-turbo''"
proof -
  let ?tok = "JStr ''gho_abc123''"
  have v: "hasVisionContent [imageMessage]"
    by (simp add: imageMessage_def textMessage_def messageHasVision_def)
  have m: "mapModel ''gpt-4o-mini'' = ModelId ''gpt-4o-mini''"
    by (simp add: mapModel_def modelMapping_def)
  have u: "\<not> supportsVision emptyState ?tok noStaticVision (mapModel ''gpt-4o-mini'')"
    by (simp add: supportsVision_def m modelSupportsVision_def getModelFromCache_def
          emptyState_def noStaticVision_def)
  have n: "\<not> js_includes visionFallbackMissingMessage ''gpt-4o-mini''"
    by (simp add: visionFallbackMissingMessage_def)
  have t: "trim '' '' = []" by (simp add: trim_def isSpace_def)
  have a: "resolveModel emptyState (Inr ?tok) noStaticVision
      \<lparr>enableVisionFallback = JBool True, visionFallbackModel = JUndefined,
       visionFallbackCustomModel = JUndefined\<rparr> [imageMessage] ''gpt-4o-mini''
     = Inl (Js (NodeOperationError visionFallbackMissingMessage))"
    using v visionFallback_unsupported [OF u]
    by (simp add: resolveModel_def fallbackModel_def del: hasVisionContent.simps)
  have b: "resolveModel emptyState (Inr ?tok) noStaticVision
      \<lparr>enableVisionFallback = JBool True, visionFallbackModel = JStr '' '',
       visionFallbackCustomModel = JUndefined\<rparr> [imageMessage] ''gpt-4o-mini''
     \<noteq> Inr (ModelId '' '')"
    using v visionFallback_unsupported [OF u] t
    by (simp add: resolveModel_def fallbackModel_def del: hasVisionContent.simps)
  have m': "mapModel ''gpt-4-turbo'' = ModelId ''gpt-4o''"
    by (simp add: mapModel_def modelMapping_def)
  have u': "\<not> supportsVision emptyState ?tok noStaticVision (mapModel ''gpt-4-turbo'')"
    by (simp add: supportsVision_def m' modelSupportsVision_def getModelFromCache_def
          emptyState_def noStaticVision_def)
  have c: "resolveModel emptyState (Inr ?tok) noStaticVision noFallback
      [imageMessage] ''gpt-4-turbo''
     = Inl (Js (NodeOperationError (visionUnsupportedMessage (ModelId ''gpt-4o''))))"
    using v visionFallback_unsupported [OF u']
    by (simp add: resolveModel_def noFallback_def m' del: hasVisionContent.simps)
  have d: "\<not> js_includes (visionUnsupportedMessage (ModelId ''gpt-4o'')) ''gpt-4-turbo''"
    by code_simp
  from v u a n b c d show ?thesis by simp
qed

section \<open>The default message\<close>

lemma defaultMessage_no_vision: "\<not> hasVisionContent [defaultMessage]"
  by (simp add: defaultMessage_def messageHasVision_def startsWith_def)

lemma addDefaultMessage_nonempty:
  "addDefaultMessage msgs = Inr out \<Longrightarrow> out \<noteq> MArray []"
  by (cases msgs) (auto simp: addDefaultMessage_def split: if_splits)

lemma validateMessages_same:
  "validateMessages msgs = Inr out \<Longrightarrow> out = msgs"
  by (cases msgs) (auto simp: validateMessages_def split: option.splits)

lemma normalizeMessages_nonempty:
  "msgs \<noteq> MArray [] \<Longrightarrow> normalizeMessages msgs \<noteq> MArray []"
  by (cases msgs) (auto simp: normalizeMessages_def)

lemma buildRequest_messages:
  assumes "buildRequest s credentials staticVision p = Inr r"
  shows "\<exists>parsed withDefault. parseMessages p = Inr parsed \<and>
           addDefaultMessage parsed = Inr withDefault \<and>
           req_messages r = normalizeMessages withDefault"
  using assms
  by (auto simp: buildRequest_def bindE_def Let_def split: sum.splits
           dest!: validateMessages_same)

text \<open>
  C10.  When the model is chosen and the parsed message list is the empty array, the
  request that reaches \<^verbatim>\<open>makeApiRequest\<close> carries the single default user message: it was
  added before the validation, the normalisation and the vision detection, none of which
  rejects or changes it.  No request carries an empty message array.
\<close>

theorem default_message_sent:
  "(selectModel p = Inr requested \<and> parseMessages p = Inr (MArray []) \<longrightarrow>
      buildRequest s credentials staticVision p =
        Inr \<lparr>req_model = mapModel requested, req_messages = MArray [defaultMessage],
             req_vision = False\<rparr>) \<and>
   (\<forall>r. buildRequest s credentials staticVision p = Inr r \<longrightarrow> req_messages r \<noteq> MArray [])"
proof (intro conjI impI allI)
  assume a: "selectModel p = Inr requested \<and> parseMessages p = Inr (MArray [])"
  have d: "addDefaultMessage (MArray []) = Inr (MArray [defaultMessage])"
    by (simp add: addDefaultMessage_def)
  have v: "validateMessages (MArray [defaultMessage]) = Inr (MArray [defaultMessage])"
    by (simp add: validateMessages_def defaultMessage_def)
  have n: "normalizeMessages (MArray [defaultMessage]) = MArray [defaultMessage]"
    by (simp add: normalizeMessages_def normalizeMessage_def defaultMessage_def)
  have h: "detectVision (MArray [defaultMessage]) = Inr False"
    using defaultMessage_no_vision by (simp add: detectVision_def del: hasVisionContent.simps)
  show "buildRequest s credentials staticVision p =
        Inr \<lparr>req_model = mapModel requested, req_messages = MArray [defaultMessage],
             req_vision = False\<rparr>"
    using a by (simp add: buildRequest_def bindE_def d v n h visionFallback_def)
next
  fix r
  assume "buildRequest s credentials staticVision p = Inr r"
  from buildRequest_messages [OF this] obtain parsed withDefault
    where "addDefaultMessage parsed = Inr withDefault"
      and "req_messages r = normalizeMessages withDefault" by blast
  then show "req_messages r \<noteq> MArray []"
    using addDefaultMessage_nonempty normalizeMessages_nonempty by metis
qed

theorem default_message_sent_witness:
  "selectModel (manualParams ''gpt-4o'' (Some [])) = Inr ''gpt-4o'' \<and>
   parseMessages (manualParams ''gpt-4o'' (Some [])) = Inr (MArray []) \<and>
   buildRequest emptyState (Inr (JStr ''gho_abc123'')) noStaticVision
       (manualParams ''gpt-4o'' (Some [])) =
     Inr \<lparr>req_model = ModelId ''gpt-4o'',
          req_messages = MArray [\<lparr>msg_role = JStr ''user'',
              msg_content = CString ''Hello! How can you help me?'', msg_type = JUndefined\<rparr>],
          req_vision = False\<rparr> \<and>
   buildRequest emptyState (Inr (JStr ''gho_abc123'')) noStaticVision
       ((manualParams ''gpt-4o'' None)\<lparr>messagesInputMode := ''json''\<rparr>) =
     Inr \<lparr>req_model = ModelId ''gpt-4o'',
          req_messages = MArray [\<lparr>msg_role = JStr ''user'',
              msg_content = CString ''Hello! How can you help me?'', msg_type = JUndefined\<rparr>],
          req_vision = False\<rparr> \<and>
   req_messages \<lparr>req_model = ModelId ''gpt-4o'',
          req_messages = MArray [\<lparr>msg_role = JStr ''user'',
              msg_content = CString ''Hello! How can you help me?'', msg_type = JUndefined\<rparr>],
          req_vision = False\<rparr> \<noteq> MArray []"
proof -
  let ?p = "manualParams ''gpt-4o'' (Some [])"
  let ?q = "(manualParams ''gpt-4o'' None)\<lparr>messagesInputMode := ''json''\<rparr>"
  have sel: "selectModel ?p = Inr ''gpt-4o''" "selectModel ?q = Inr ''gpt-4o''"
    by (simp_all add: selectModel_def manualParams_def)
  have par: "parseMessages ?p = Inr (MArray [])" "parseMessages ?q = Inr (MArray [])"
    by (simp_all add: parseMessages_def manualParams_def)
  have m: "mapModel ''gpt-4o'' = ModelId ''gpt-4o''"
    by (simp add: mapModel_def modelMapping_def)
  from default_message_sent [of ?p "''gpt-4o''" emptyState "Inr (JStr ''gho_abc123'')" noStaticVision]
    sel par m
  have a: "buildRequest emptyState (Inr (JStr ''gho_abc123'')) noStaticVision ?p =
     Inr \<lparr>req_model = ModelId ''gpt-4o'', req_messages = MArray [defaultMessage],
          req_vision = False\<rparr>"
    by simp
  from default_message_sent [of ?q "''gpt-4o''" emptyState "Inr (JStr ''gho_abc123'')" noStaticVision]
    sel par m
  have b: "buildRequest emptyState (Inr (JStr ''gho_abc123'')) noStaticVision ?q =
     Inr \<lparr>req_model = ModelId ''gpt-4o'', req_messages = MArray [defaultMessage],
          req_vision = False\<rparr>"
    by simp
  from sel par a b show ?thesis by (simp add: defaultMessage_def)
qed

section \<open>The error of an item under continue-on-fail\<close>

text \<open>
  With continue-on-fail, an error that \<^verbatim>\<open>JSON.stringify\<close> serialises and whose cleaned message
  contains \<^verbatim>\<open>400\<close> or \<^verbatim>\<open>bad request\<close> in lower case, or whose API error code is
  \<^verbatim>\<open>invalid_request_body\<close>, is thrown again as a \<^verbatim>\<open>NodeOperationError\<close>
  \<^verbatim>\<open>Bad Request (400): ...\<close>; every other error that is serialised is pushed to the output
  as an item with the members message, type, param and code.
\<close>

lemma handleItemError_serialised:
  assumes "\<not> stringifyThrows c"
  shows
  "(js_includes (toLowerCase (cleanErrorMessage (errorMessage c))) ''400'' \<or>
    js_includes (toLowerCase (cleanErrorMessage (errorMessage c))) ''bad request'' \<or>
    (\<exists>b. apiErrorBody c = Some b \<and> err_code b = JStr ''invalid_request_body'')
      \<longrightarrow> handleItemError True c =
            Thrown (Js (NodeOperationError
              (''Bad Request (400): '' @ cleanErrorMessage (errorMessage c))))) \<and>
   (\<not> (js_includes (toLowerCase (cleanErrorMessage (errorMessage c))) ''400'' \<or>
       js_includes (toLowerCase (cleanErrorMessage (errorMessage c))) ''bad request'' \<or>
       (\<exists>b. apiErrorBody c = Some b \<and> err_code b = JStr ''invalid_request_body''))
      \<longrightarrow> (\<exists>m t p k. handleItemError True c =
            Pushed \<lparr>item_message = m, item_type = t, item_param = p, item_code = k\<rparr>))"
proof -
  have eq: "is400Error (cleanErrorMessage (errorMessage c)) (apiErrorBody c) \<longleftrightarrow>
      (js_includes (toLowerCase (cleanErrorMessage (errorMessage c))) ''400'' \<or>
       js_includes (toLowerCase (cleanErrorMessage (errorMessage c))) ''bad request'' \<or>
       (\<exists>b. apiErrorBody c = Some b \<and> err_code b = JStr ''invalid_request_body''))"
    by (cases "apiErrorBody c") (simp_all add: is400Error_def Let_def)
  have item: "\<exists>m t p k. (i :: error_item) =
      \<lparr>item_message = m, item_type = t, item_param = p, item_code = k\<rparr>" for i
    by (cases i) simp
  show ?thesis
    unfolding eq [symmetric] using item assms
    by (simp add: handleItemError_def Let_def)
qed

lemma handleItemError_unserialisable:
  "stringifyThrows c \<Longrightarrow> handleItemError True c = Thrown (Js TypeError)"
  by (simp add: handleItemError_def)

lemma handleItemError_serialised_examples:
  "handleItemError True (serialisedError ''GitHub Copilot API error: 400 Bad Request [Attempt: 1/3]'')
     = Thrown (Js (NodeOperationError ''Bad Request (400): 400 Bad Request'')) \<and>
   handleItemError True (serialisedError ''GitHub Copilot API error: 503 Service Unavailable'')
     = Pushed \<lparr>item_message = JStr ''503 Service Unavailable'', item_type = JStr ''api_error'',
               item_param = JNull, item_code = JStr ''internal_error''\<rparr>"
  by code_simp


end
